theory Spec2Isabelle
  imports Complex_Main "HOL-Library.Word"
begin

section \<open>The bouncing-sphere simulation of \<^verbatim>\<open>src/simulation/main.cpp\<close>\<close>

text \<open>
  The program keeps a vector of spheres and, once per frame, runs the loop headed
  ``Update all spheres'': every sphere in turn receives gravity, moves, is put back
  inside the bottom, left and right edges of the window, and is then collided with every
  other sphere by \<^verbatim>\<open>handleSphereCollision\<close>.

  Numbers. The source computes with C++ \<^verbatim>\<open>double\<close>. The embedding below uses the type
  \<^typ>\<open>real\<close>: every operation is exact, there is no rounding, no overflow to an
  infinity and no NaN. The theorems are therefore statements about the arithmetic the
  code writes down, not about IEEE-754 rounding. They settle a property of the program
  only where rounding cannot change it: a comparison that is far from its threshold, a
  value the code assigns, an update the code does not make. A property that compares a
  rounded result with an exact value is not settled by this embedding; the two sections
  headed ``in exact arithmetic'' say what the formulas give and where the run differs.
  The one place where the source computes
  with a value that is not a real number, the division \<^verbatim>\<open>1.0 / distance\<close> for
  \<^verbatim>\<open>distance == 0\<close>, is modelled separately in the section on the normalize step.
  The integer constants of the source are \<^typ>\<open>int\<close> and are converted where the source
  converts them.
\<close>

subsection \<open>Constants\<close>

definition SCREEN_WIDTH :: int where
  "SCREEN_WIDTH = 640"

definition SCREEN_HEIGHT :: int where
  "SCREEN_HEIGHT = 480"

definition SPHERE_RADIUS :: int where
  "SPHERE_RADIUS = 20"

definition GRAVITY :: real where
  "GRAVITY = 0.2"

definition BOUNCE_FACTOR :: real where
  "BOUNCE_FACTOR = 0.8"

subsection \<open>Vector2\<close>

record Vector2 =
  x :: real
  y :: real

text \<open>\<^verbatim>\<open>operator+\<close>, \<^verbatim>\<open>operator-\<close>, \<^verbatim>\<open>operator*(double)\<close> and \<^verbatim>\<open>operator*(const Vector2&)\<close>.\<close>

definition Vector2_plus :: "Vector2 \<Rightarrow> Vector2 \<Rightarrow> Vector2" where
  "Vector2_plus a other = \<lparr>x = x a + x other, y = y a + y other\<rparr>"

definition Vector2_minus :: "Vector2 \<Rightarrow> Vector2 \<Rightarrow> Vector2" where
  "Vector2_minus a other = \<lparr>x = x a - x other, y = y a - y other\<rparr>"

definition Vector2_scale :: "Vector2 \<Rightarrow> real \<Rightarrow> Vector2" where
  "Vector2_scale a scalar = \<lparr>x = x a * scalar, y = y a * scalar\<rparr>"

definition Vector2_times :: "Vector2 \<Rightarrow> Vector2 \<Rightarrow> Vector2" where
  "Vector2_times a other = \<lparr>x = x a * x other, y = y a * y other\<rparr>"

subsection \<open>Sphere\<close>

record Sphere =
  position :: Vector2
  velocity :: Vector2
  color :: "32 word"
  bounceFactor :: real

subsection \<open>handleSphereCollision\<close>

text \<open>
  The local variables of \<^verbatim>\<open>handleSphereCollision\<close> that the properties speak about are
  definitions of their own: the vector between the centres, its length, the normalized
  vector and the relative speed along it.
\<close>

definition relativePosition :: "Sphere \<Rightarrow> Sphere \<Rightarrow> Vector2" where
  "relativePosition sphere1 sphere2 = Vector2_minus (position sphere2) (position sphere1)"

definition distance :: "Sphere \<Rightarrow> Sphere \<Rightarrow> real" where
  "distance sphere1 sphere2 =
     sqrt (x (relativePosition sphere1 sphere2) * x (relativePosition sphere1 sphere2)
         + y (relativePosition sphere1 sphere2) * y (relativePosition sphere1 sphere2))"

definition totalRadius :: real where
  "totalRadius = real_of_int (2 * SPHERE_RADIUS)"

definition penetration :: "Sphere \<Rightarrow> Sphere \<Rightarrow> real" where
  "penetration sphere1 sphere2 = totalRadius - distance sphere1 sphere2"

definition normal :: "Sphere \<Rightarrow> Sphere \<Rightarrow> Vector2" where
  "normal sphere1 sphere2 =
     Vector2_scale (relativePosition sphere1 sphere2) (1 / distance sphere1 sphere2)"

definition relativeVelocity :: "Sphere \<Rightarrow> Sphere \<Rightarrow> Vector2" where
  "relativeVelocity sphere1 sphere2 = Vector2_minus (velocity sphere2) (velocity sphere1)"

definition relativeSpeed :: "Sphere \<Rightarrow> Sphere \<Rightarrow> real" where
  "relativeSpeed sphere1 sphere2 =
     x (normal sphere1 sphere2) * x (relativeVelocity sphere1 sphere2)
   + y (normal sphere1 sphere2) * y (relativeVelocity sphere1 sphere2)"

definition impulse :: "Sphere \<Rightarrow> Sphere \<Rightarrow> real" where
  "impulse sphere1 sphere2 =
     (2 * relativeSpeed sphere1 sphere2)
       / (1 / bounceFactor sphere1 + 1 / bounceFactor sphere2)"

definition moveDistance :: "Sphere \<Rightarrow> Sphere \<Rightarrow> real" where
  "moveDistance sphere1 sphere2 = penetration sphere1 sphere2 * 0.5"

text \<open>
  The function mutates both arguments through references; the model returns the pair of
  updated spheres. Every right-hand side below reads the spheres as they were on entry,
  which is what the source does: \<^verbatim>\<open>normal\<close>, \<^verbatim>\<open>impulse\<close> and \<^verbatim>\<open>moveDistance\<close> are
  locals computed before the first assignment.
\<close>

definition handleSphereCollision :: "Sphere \<Rightarrow> Sphere \<Rightarrow> Sphere \<times> Sphere" where
  "handleSphereCollision sphere1 sphere2 =
     (if distance sphere1 sphere2 < totalRadius then
        (if relativeSpeed sphere1 sphere2 < 0 then
           (sphere1
              \<lparr>position :=
                 \<lparr>x = x (position sphere1)
                        - moveDistance sphere1 sphere2 * x (normal sphere1 sphere2),
                  y = y (position sphere1)
                        - moveDistance sphere1 sphere2 * y (normal sphere1 sphere2)\<rparr>,
               velocity :=
                 \<lparr>x = x (velocity sphere1)
                        + impulse sphere1 sphere2
                            * (x (normal sphere1 sphere2) * (1 / bounceFactor sphere1)),
                  y = y (velocity sphere1)
                        + impulse sphere1 sphere2
                            * (y (normal sphere1 sphere2) * (1 / bounceFactor sphere1))\<rparr>\<rparr>,
            sphere2
              \<lparr>position :=
                 \<lparr>x = x (position sphere2)
                        + moveDistance sphere1 sphere2 * x (normal sphere1 sphere2),
                  y = y (position sphere2)
                        + moveDistance sphere1 sphere2 * y (normal sphere1 sphere2)\<rparr>,
               velocity :=
                 \<lparr>x = x (velocity sphere2)
                        - impulse sphere1 sphere2
                            * (x (normal sphere1 sphere2) * (1 / bounceFactor sphere2)),
                  y = y (velocity sphere2)
                        - impulse sphere1 sphere2
                            * (y (normal sphere1 sphere2) * (1 / bounceFactor sphere2))\<rparr>\<rparr>)
         else (sphere1, sphere2))
      else (sphere1, sphere2))"

subsection \<open>The update loop\<close>

text \<open>
  Lines 148 to 152: gravity is added to the vertical velocity, then the new velocity is
  added to the position.
\<close>

definition integrate :: "Sphere \<Rightarrow> Sphere" where
  "integrate sphere =
     (let v = (velocity sphere)\<lparr>y := y (velocity sphere) + GRAVITY\<rparr>
      in sphere\<lparr>velocity := v, position := Vector2_plus (position sphere) v\<rparr>)"

text \<open>
  Lines 154 to 161: the bottom of the window. Lines 163 to 177: the left side, else the
  right side. There is no test for the top of the window. The bounces multiply by the
  global \<^verbatim>\<open>BOUNCE_FACTOR\<close>.
\<close>

definition resolveBottom :: "Sphere \<Rightarrow> Sphere" where
  "resolveBottom sphere =
     (if y (position sphere) + real_of_int SPHERE_RADIUS \<ge> real_of_int SCREEN_HEIGHT then
        sphere\<lparr>position := (position sphere)\<lparr>y := real_of_int (SCREEN_HEIGHT - SPHERE_RADIUS)\<rparr>,
               velocity := (velocity sphere)\<lparr>y := - y (velocity sphere) * BOUNCE_FACTOR\<rparr>\<rparr>
      else sphere)"

definition resolveSides :: "Sphere \<Rightarrow> Sphere" where
  "resolveSides sphere =
     (if x (position sphere) - real_of_int SPHERE_RADIUS \<le> 0 then
        sphere\<lparr>position := (position sphere)\<lparr>x := real_of_int SPHERE_RADIUS\<rparr>,
               velocity := (velocity sphere)\<lparr>x := - x (velocity sphere) * BOUNCE_FACTOR\<rparr>\<rparr>
      else if x (position sphere) + real_of_int SPHERE_RADIUS \<ge> real_of_int SCREEN_WIDTH then
        sphere\<lparr>position := (position sphere)\<lparr>x := real_of_int (SCREEN_WIDTH - SPHERE_RADIUS)\<rparr>,
               velocity := (velocity sphere)\<lparr>x := - x (velocity sphere) * BOUNCE_FACTOR\<rparr>\<rparr>
      else sphere)"

definition resolveBoundaries :: "Sphere \<Rightarrow> Sphere" where
  "resolveBoundaries sphere = resolveSides (resolveBottom sphere)"

text \<open>Lines 148 to 177 for one sphere: everything before the inner loop.\<close>

definition moveSphere :: "Sphere \<Rightarrow> Sphere" where
  "moveSphere sphere = resolveBoundaries (integrate sphere)"

text \<open>
  The spheres live in a \<^verbatim>\<open>std::vector\<close> and both loops bind references to its elements,
  so the model is a list addressed by index. \<^verbatim>\<open>&sphere != &otherSphere\<close> compares
  addresses of elements of the same vector: it is the comparison of the two indices.
  One step of the inner loop (lines 181 to 183) replaces both elements by the result of
  \<^verbatim>\<open>handleSphereCollision\<close>.
\<close>

definition collidePair :: "nat \<Rightarrow> Sphere list \<Rightarrow> nat \<Rightarrow> Sphere list" where
  "collidePair i spheres j =
     (if i \<noteq> j then
        (case handleSphereCollision (spheres ! i) (spheres ! j) of
           (sphere, otherSphere) \<Rightarrow> spheres[i := sphere, j := otherSphere])
      else spheres)"

text \<open>The inner loop, lines 180 to 184, for the sphere at index \<open>i\<close>.\<close>

definition collideWithOthers :: "nat \<Rightarrow> Sphere list \<Rightarrow> Sphere list" where
  "collideWithOthers i spheres = foldl (collidePair i) spheres [0..<length spheres]"

text \<open>The body of the outer loop, lines 148 to 184, for the sphere at index \<open>i\<close>.\<close>

definition updateSphere :: "Sphere list \<Rightarrow> nat \<Rightarrow> Sphere list" where
  "updateSphere spheres i = collideWithOthers i (spheres[i := moveSphere (spheres ! i)])"

text \<open>The outer loop, lines 147 to 185: one tick.\<close>

definition tick :: "Sphere list \<Rightarrow> Sphere list" where
  "tick spheres = foldl updateSphere spheres [0..<length spheres]"

text \<open>\<open>n\<close> frames in which no event arrives.\<close>

definition ticks :: "nat \<Rightarrow> Sphere list \<Rightarrow> Sphere list" where
  "ticks n spheres = (tick ^^ n) spheres"

subsection \<open>Adding a sphere\<close>

text \<open>
  Lines 135 to 143. The click position \<^verbatim>\<open>e.button.x\<close>, \<^verbatim>\<open>e.button.y\<close> is a pair of signed
  32-bit integers, converted to \<^verbatim>\<open>double\<close> by the constructor of \<^verbatim>\<open>Vector2\<close>. The colour
  comes from \<^verbatim>\<open>SDL_MapRGB\<close> applied to three calls of \<^verbatim>\<open>rand\<close>; it is a parameter here.
\<close>

definition newSphere :: "32 word \<Rightarrow> 32 word \<Rightarrow> 32 word \<Rightarrow> Sphere" where
  "newSphere ex ey c =
     \<lparr>position = \<lparr>x = real_of_int (sint ex), y = real_of_int (sint ey)\<rparr>,
      velocity = \<lparr>x = 0.0, y = 0.0\<rparr>,
      color = c,
      bounceFactor = BOUNCE_FACTOR\<rparr>"

definition spawn :: "32 word \<Rightarrow> 32 word \<Rightarrow> 32 word \<Rightarrow> Sphere list \<Rightarrow> Sphere list" where
  "spawn ex ey c spheres = spheres @ [newSphere ex ey c]"

subsection \<open>The normalize step at distance zero\<close>

text \<open>
  Line 74 computes \<^verbatim>\<open>relativePosition * (1.0 / distance)\<close>. For \<^verbatim>\<open>distance == 0\<close> the
  quotient is not a real number, so the definition of \<open>normal\<close> above says nothing
  about what the machine computes there. The type below adds the three special values of
  IEEE-754 to the reals, and the two operations of line 74 are written with the
  standard's rules for them: a positive finite number divided by \<open>+0\<close> is \<open>+\<infinity>\<close>; zero
  times an infinity is NaN; a nonzero finite number times an infinity is the infinity of
  the product's sign. Finite results stay exact, as everywhere in this theory. The
  divisor is the result of \<^verbatim>\<open>std::sqrt\<close> of a sum of two squares, so it is never negative
  and a zero is \<open>+0\<close>.
\<close>

datatype ieee = Finite real | PlusInfinity | MinusInfinity | NaN

definition one_over :: "real \<Rightarrow> ieee" where
  "one_over d = (if d = 0 then PlusInfinity else Finite (1 / d))"

definition times_ieee :: "real \<Rightarrow> ieee \<Rightarrow> ieee" where
  "times_ieee c k =
     (case k of
        Finite r \<Rightarrow> Finite (c * r)
      | PlusInfinity \<Rightarrow> (if c = 0 then NaN else if 0 < c then PlusInfinity else MinusInfinity)
      | MinusInfinity \<Rightarrow> (if c = 0 then NaN else if 0 < c then MinusInfinity else PlusInfinity)
      | NaN \<Rightarrow> NaN)"

text \<open>
  The value of the local \<^verbatim>\<open>normal\<close> when the function reaches line 74, and \<open>None\<close> when
  the test of line 69 fails and the line is not reached.
\<close>

definition normal_ieee :: "Sphere \<Rightarrow> Sphere \<Rightarrow> (ieee \<times> ieee) option" where
  "normal_ieee sphere1 sphere2 =
     (if distance sphere1 sphere2 < totalRadius then
        Some (times_ieee (x (relativePosition sphere1 sphere2)) (one_over (distance sphere1 sphere2)),
              times_ieee (y (relativePosition sphere1 sphere2)) (one_over (distance sphere1 sphere2)))
      else None)"

subsection \<open>The staged procedure of the specification\<close>

text \<open>
  The specification describes a tick as three passes over the whole list: integrate
  every body, resolve the boundaries of every body, resolve the collision of every
  unordered pair. The definitions below follow that description, with the per-body
  operations of the source; they are compared with \<open>tick\<close>, which follows the code.
\<close>

definition unorderedPairs :: "nat \<Rightarrow> (nat \<times> nat) list" where
  "unorderedPairs n = concat (map (\<lambda>i. map (\<lambda>j. (i, j)) [Suc i..<n]) [0..<n])"

definition resolveCollisions :: "Sphere list \<Rightarrow> Sphere list" where
  "resolveCollisions spheres =
     foldl (\<lambda>st (i, j). collidePair i st j) spheres (unorderedPairs (length spheres))"

definition stagedTick :: "Sphere list \<Rightarrow> Sphere list" where
  "stagedTick spheres = resolveCollisions (map resolveBoundaries (map integrate spheres))"

subsection \<open>Ticks without collision response\<close>

text \<open>
  A call of \<^verbatim>\<open>handleSphereCollision\<close> finds nothing to do when one of its two tests fails:
  the spheres do not overlap (line 69) or they do not approach each other (line 81). A
  list of spheres is quiet for the coming tick when every call the tick makes finds
  nothing to do. When the loop reaches sphere \<open>i\<close>, the spheres before it have been moved
  and the ones after it have not, so for \<open>i\<close> before \<open>j\<close> the moved sphere \<open>i\<close> meets
  sphere \<open>j\<close> both as it was and as moved. (\<open>sorted_wrt R\<close> says that \<open>R\<close> holds between
  every element of a list and every later one.)
\<close>

definition noResponse :: "Sphere \<Rightarrow> Sphere \<Rightarrow> bool" where
  "noResponse s t = (\<not> (distance s t < totalRadius \<and> relativeSpeed s t < 0))"

definition clearOf :: "Sphere \<Rightarrow> Sphere \<Rightarrow> bool" where
  "clearOf s t = (noResponse (moveSphere s) t \<and> noResponse (moveSphere s) (moveSphere t))"

definition quietTick :: "Sphere list \<Rightarrow> bool" where
  "quietTick spheres = sorted_wrt clearOf spheres"

text \<open>
  The list in the middle of a quiet tick: the first \<open>k\<close> spheres have been
  moved, the others are as they were.
\<close>

definition movedUpTo :: "nat \<Rightarrow> Sphere list \<Rightarrow> Sphere list" where
  "movedUpTo k spheres = map moveSphere (take k spheres) @ drop k spheres"

subsection \<open>Concrete spheres\<close>

text \<open>
  A sphere as the program creates it (colour aside), placed at a position with a
  velocity: the inputs of the examples.
\<close>

definition sphereAt :: "real \<Rightarrow> real \<Rightarrow> real \<Rightarrow> real \<Rightarrow> Sphere" where
  "sphereAt px py vx vy =
     \<lparr>position = \<lparr>x = px, y = py\<rparr>, velocity = \<lparr>x = vx, y = vy\<rparr>,
      color = 0, bounceFactor = BOUNCE_FACTOR\<rparr>"

section \<open>Properties of handleSphereCollision\<close>

lemmas collision_defs =
  distance_def relativePosition_def Vector2_minus_def Vector2_scale_def normal_def
  relativeVelocity_def relativeSpeed_def totalRadius_def SPHERE_RADIUS_def

lemmas sphereAt_simps = sphereAt_def BOUNCE_FACTOR_def

lemma totalRadius_eq: "totalRadius = 40"
  by (simp add: totalRadius_def SPHERE_RADIUS_def)

lemma distance_nonneg: "0 \<le> distance s1 s2"
  by (simp add: distance_def)

lemma distance_sq:
  "distance s1 s2 * distance s1 s2 =
     x (relativePosition s1 s2) * x (relativePosition s1 s2)
   + y (relativePosition s1 s2) * y (relativePosition s1 s2)"
  by (simp add: distance_def)

lemma relativeSpeed_zero_distance: "distance s1 s2 = 0 \<Longrightarrow> relativeSpeed s1 s2 = 0"
  by (simp add: relativeSpeed_def normal_def Vector2_scale_def)

lemma closing_distance_pos: "relativeSpeed s1 s2 < 0 \<Longrightarrow> 0 < distance s1 s2"
  using distance_nonneg [of s1 s2] relativeSpeed_zero_distance [of s1 s2]
  by (cases "distance s1 s2 = 0") auto

lemma normal_unit:
  assumes "0 < distance s1 s2"
  shows "x (normal s1 s2) * x (normal s1 s2) + y (normal s1 s2) * y (normal s1 s2) = 1"
proof -
  let ?d = "distance s1 s2"
  let ?dx = "x (relativePosition s1 s2)"
  let ?dy = "y (relativePosition s1 s2)"
  have "x (normal s1 s2) * x (normal s1 s2) + y (normal s1 s2) * y (normal s1 s2)
        = (?dx * ?dx + ?dy * ?dy) / (?d * ?d)"
    by (simp add: normal_def Vector2_scale_def add_divide_distrib)
  also have "\<dots> = (?d * ?d) / (?d * ?d)" by (simp only: distance_sq)
  also have "\<dots> = 1" using assms by simp
  finally show ?thesis .
qed

lemma handleSphereCollision_closing:
  assumes "distance s1 s2 < totalRadius" and "relativeSpeed s1 s2 < 0"
  shows "handleSphereCollision s1 s2 =
    (s1\<lparr>position :=
          \<lparr>x = x (position s1) - moveDistance s1 s2 * x (normal s1 s2),
           y = y (position s1) - moveDistance s1 s2 * y (normal s1 s2)\<rparr>,
        velocity :=
          \<lparr>x = x (velocity s1) + impulse s1 s2 * (x (normal s1 s2) * (1 / bounceFactor s1)),
           y = y (velocity s1) + impulse s1 s2 * (y (normal s1 s2) * (1 / bounceFactor s1))\<rparr>\<rparr>,
     s2\<lparr>position :=
          \<lparr>x = x (position s2) + moveDistance s1 s2 * x (normal s1 s2),
           y = y (position s2) + moveDistance s1 s2 * y (normal s1 s2)\<rparr>,
        velocity :=
          \<lparr>x = x (velocity s2) - impulse s1 s2 * (x (normal s1 s2) * (1 / bounceFactor s2)),
           y = y (velocity s2) - impulse s1 s2 * (y (normal s1 s2) * (1 / bounceFactor s2))\<rparr>\<rparr>)"
  using assms by (simp add: handleSphereCollision_def)

lemma resolved_relativePosition:
  assumes "distance s1 s2 < totalRadius" and "relativeSpeed s1 s2 < 0"
    and "handleSphereCollision s1 s2 = (a, b)"
  shows "relativePosition a b = Vector2_scale (normal s1 s2) totalRadius"
proof -
  let ?d = "distance s1 s2"
  have d: "0 < ?d" using assms(2) by (rule closing_distance_pos)
  have ab: "position a = \<lparr>x = x (position s1) - moveDistance s1 s2 * x (normal s1 s2),
           y = y (position s1) - moveDistance s1 s2 * y (normal s1 s2)\<rparr>"
       "position b = \<lparr>x = x (position s2) + moveDistance s1 s2 * x (normal s1 s2),
           y = y (position s2) + moveDistance s1 s2 * y (normal s1 s2)\<rparr>"
    using handleSphereCollision_closing [OF assms(1,2)] assms(3) by auto
  have nx: "x (relativePosition s1 s2) = ?d * x (normal s1 s2)"
    using d by (simp add: normal_def Vector2_scale_def)
  have ny: "y (relativePosition s1 s2) = ?d * y (normal s1 s2)"
    using d by (simp add: normal_def Vector2_scale_def)
  have "x (relativePosition a b) = x (relativePosition s1 s2) + (totalRadius - ?d) * x (normal s1 s2)"
    by (simp add: ab relativePosition_def Vector2_minus_def moveDistance_def penetration_def algebra_simps)
  then have X: "x (relativePosition a b) = totalRadius * x (normal s1 s2)"
    by (simp add: nx algebra_simps)
  have "y (relativePosition a b) = y (relativePosition s1 s2) + (totalRadius - ?d) * y (normal s1 s2)"
    by (simp add: ab relativePosition_def Vector2_minus_def moveDistance_def penetration_def algebra_simps)
  then have Y: "y (relativePosition a b) = totalRadius * y (normal s1 s2)"
    by (simp add: ny algebra_simps)
  show ?thesis
    using X Y by (simp add: Vector2_scale_def relativePosition_def Vector2_minus_def mult.commute)
qed

lemma resolved_distance:
  assumes "distance s1 s2 < totalRadius" and "relativeSpeed s1 s2 < 0"
    and "handleSphereCollision s1 s2 = (a, b)"
  shows "distance a b = totalRadius"
proof -
  let ?nx = "x (normal s1 s2)" and ?ny = "y (normal s1 s2)"
  have d: "0 < distance s1 s2" using assms(2) by (rule closing_distance_pos)
  have "distance a b = sqrt (totalRadius * totalRadius * (?nx * ?nx + ?ny * ?ny))"
    by (simp add: distance_def resolved_relativePosition [OF assms] Vector2_scale_def algebra_simps)
  also have "\<dots> = sqrt (totalRadius * totalRadius)"
    by (simp add: normal_unit [OF d])
  also have "\<dots> = totalRadius" by (simp add: totalRadius_eq)
  finally show ?thesis .
qed

lemma resolved_normal:
  assumes "distance s1 s2 < totalRadius" and "relativeSpeed s1 s2 < 0"
    and "handleSphereCollision s1 s2 = (a, b)"
  shows "normal a b = normal s1 s2"
  by (simp add: normal_def [of a b] resolved_distance [OF assms]
      resolved_relativePosition [OF assms] Vector2_scale_def totalRadius_eq)

lemma resolved_relativeVelocity:
  assumes "distance s1 s2 < totalRadius" and "relativeSpeed s1 s2 < 0"
    and "handleSphereCollision s1 s2 = (a, b)"
    and "0 < bounceFactor s1" and "0 < bounceFactor s2"
  shows "relativeVelocity a b =
    Vector2_minus (relativeVelocity s1 s2) (Vector2_scale (normal s1 s2) (2 * relativeSpeed s1 s2))"
proof -
  let ?k = "1 / bounceFactor s1 + 1 / bounceFactor s2"
  have k: "?k \<noteq> 0"
    using assms(4,5) by (simp add: add_pos_pos less_imp_neq [THEN not_sym])
  have J: "impulse s1 s2 * ?k = 2 * relativeSpeed s1 s2"
    unfolding impulse_def using k by simp
  have ab: "velocity a = \<lparr>x = x (velocity s1) + impulse s1 s2 * (x (normal s1 s2) * (1 / bounceFactor s1)),
           y = y (velocity s1) + impulse s1 s2 * (y (normal s1 s2) * (1 / bounceFactor s1))\<rparr>"
       "velocity b = \<lparr>x = x (velocity s2) - impulse s1 s2 * (x (normal s1 s2) * (1 / bounceFactor s2)),
           y = y (velocity s2) - impulse s1 s2 * (y (normal s1 s2) * (1 / bounceFactor s2))\<rparr>"
    using handleSphereCollision_closing [OF assms(1,2)] assms(3) by auto
  have "x (relativeVelocity a b) = x (relativeVelocity s1 s2) - x (normal s1 s2) * (impulse s1 s2 * ?k)"
    by (simp add: ab relativeVelocity_def Vector2_minus_def algebra_simps)
  then have X: "x (relativeVelocity a b) = x (relativeVelocity s1 s2) - x (normal s1 s2) * (2 * relativeSpeed s1 s2)"
    by (simp only: J)
  have "y (relativeVelocity a b) = y (relativeVelocity s1 s2) - y (normal s1 s2) * (impulse s1 s2 * ?k)"
    by (simp add: ab relativeVelocity_def Vector2_minus_def algebra_simps)
  then have Y: "y (relativeVelocity a b) = y (relativeVelocity s1 s2) - y (normal s1 s2) * (2 * relativeSpeed s1 s2)"
    by (simp only: J)
  show ?thesis using X Y
    by (simp add: Vector2_minus_def Vector2_scale_def relativeVelocity_def)
qed

lemma resolved_relativeSpeed:
  assumes "distance s1 s2 < totalRadius" and "relativeSpeed s1 s2 < 0"
    and "handleSphereCollision s1 s2 = (a, b)"
    and "0 < bounceFactor s1" and "0 < bounceFactor s2"
  shows "relativeSpeed a b = - relativeSpeed s1 s2"
proof -
  let ?nx = "x (normal s1 s2)" and ?ny = "y (normal s1 s2)"
  let ?s = "relativeSpeed s1 s2"
  have d: "0 < distance s1 s2" using assms(2) by (rule closing_distance_pos)
  have "relativeSpeed a b = ?s - 2 * ?s * (?nx * ?nx + ?ny * ?ny)"
    unfolding relativeSpeed_def [of a b] resolved_normal [OF assms(1,2,3)]
      resolved_relativeVelocity [OF assms]
    by (simp add: Vector2_minus_def Vector2_scale_def relativeSpeed_def algebra_simps)
  then show ?thesis by (simp add: normal_unit [OF d])
qed

subsection \<open>The response in exact arithmetic\<close>

text \<open>
  Over the reals the response puts the centres exactly \<^verbatim>\<open>2 * SPHERE_RADIUS\<close> apart and
  reverses the relative speed along the normal, for positive bounce factors. This is a
  statement about the formulas of lines 82 to 95, not about a run of the program. The run
  rounds every sum, product, quotient and square root to binary64, so its centre distance
  lies within rounding of 40, on either side: for centres \<open>(100, 100)\<close> and
  \<open>(107, 124)\<close>, the first sphere moving with velocity \<open>(0, 1)\<close>, the exact result is 40
  and the binary64 result is below 40. A bound on the distance after the response that
  holds of the run is a statement about rounding errors, which this embedding does not
  express.
\<close>

lemma response_separates_exact:
  assumes "distance s1 s2 < totalRadius" and "relativeSpeed s1 s2 < 0"
    and "0 < bounceFactor s1" and "0 < bounceFactor s2"
    and "handleSphereCollision s1 s2 = (a, b)"
  shows "distance a b = real_of_int (2 * SPHERE_RADIUS)"
    and "relativeSpeed a b = - relativeSpeed s1 s2"
proof -
  show "distance a b = real_of_int (2 * SPHERE_RADIUS)"
    using resolved_distance [OF assms(1,2,5)] by (simp add: totalRadius_def)
  show "relativeSpeed a b = - relativeSpeed s1 s2"
    using assms(1,2,5,3,4) by (rule resolved_relativeSpeed)
qed

subsection \<open>Spheres that do not approach each other\<close>

text \<open>
  Claim C8. Two overlapping spheres whose relative speed along the contact normal is zero
  or positive come out of \<^verbatim>\<open>handleSphereCollision\<close> as they went in: positions and
  velocities (and everything else) are unchanged.
\<close>

theorem collision_noop_when_not_closing:
  "distance s1 s2 < totalRadius \<Longrightarrow> 0 \<le> relativeSpeed s1 s2 \<Longrightarrow>
   handleSphereCollision s1 s2 = (s1, s2)"
  by (simp add: handleSphereCollision_def)

theorem collision_noop_when_not_closing_witness:
  "distance (sphereAt 100 100 0 0) (sphereAt 103 104 0 1) < totalRadius
   \<and> 0 \<le> relativeSpeed (sphereAt 100 100 0 0) (sphereAt 103 104 0 1)
   \<and> handleSphereCollision (sphereAt 100 100 0 0) (sphereAt 103 104 0 1)
       = (sphereAt 100 100 0 0, sphereAt 103 104 0 1)"
proof -
  have h1: "distance (sphereAt 100 100 0 0) (sphereAt 103 104 0 1) < totalRadius"
    by (simp add: collision_defs sphereAt_simps)
  have h2: "0 \<le> relativeSpeed (sphereAt 100 100 0 0) (sphereAt 103 104 0 1)"
    by (simp add: collision_defs sphereAt_simps)
  show ?thesis
    using collision_noop_when_not_closing [OF h1 h2] h1 h2 by blast
qed

section \<open>Properties of the boundary step and of adding a sphere\<close>

text \<open>
  Claim C10. The boundary step does not read the sphere's own \<^verbatim>\<open>bounceFactor\<close>: two
  spheres that differ only in that field leave the step with the same position and the
  same velocity. The bounces multiply by the global \<^verbatim>\<open>BOUNCE_FACTOR\<close>.
\<close>

theorem resolveBoundaries_ignores_bounceFactor:
  "position (resolveBoundaries (s\<lparr>bounceFactor := b\<rparr>)) = position (resolveBoundaries s)
   \<and> velocity (resolveBoundaries (s\<lparr>bounceFactor := b\<rparr>)) = velocity (resolveBoundaries s)"
  by (simp add: resolveBoundaries_def resolveSides_def resolveBottom_def)

text \<open>
  Claim C9. A click appends exactly one sphere: the list grows by one, the spheres that
  were there are the same spheres in the same places, and the new last sphere is at the
  click position with zero velocity and the bounce factor \<^verbatim>\<open>BOUNCE_FACTOR\<close>. A sphere has
  no radius field: the radius of every sphere is the constant \<^verbatim>\<open>SPHERE_RADIUS\<close>.
\<close>

theorem spawn_appends_one:
  "length (spawn ex ey c spheres) = length spheres + 1
   \<and> take (length spheres) (spawn ex ey c spheres) = spheres
   \<and> position (last (spawn ex ey c spheres))
       = \<lparr>x = real_of_int (sint ex), y = real_of_int (sint ey)\<rparr>
   \<and> velocity (last (spawn ex ey c spheres)) = \<lparr>x = 0, y = 0\<rparr>
   \<and> bounceFactor (last (spawn ex ey c spheres)) = BOUNCE_FACTOR
   \<and> color (last (spawn ex ey c spheres)) = c"
  by (simp add: spawn_def newSphere_def)

section \<open>The normalize step for coinciding centres\<close>

text \<open>
  Away from distance zero the extended arithmetic computes the normal of the real model.
\<close>

lemma normal_ieee_finite:
  "distance s1 s2 < totalRadius \<Longrightarrow> distance s1 s2 \<noteq> 0 \<Longrightarrow>
   normal_ieee s1 s2 = Some (Finite (x (normal s1 s2)), Finite (y (normal s1 s2)))"
  by (simp add: normal_ieee_def one_over_def times_ieee_def normal_def Vector2_scale_def)

text \<open>
  At distance zero the real model leaves both spheres unchanged, and so does the machine:
  every comparison with a NaN is false, so the test \<^verbatim>\<open>relativeSpeed < 0\<close> of line 81
  fails. The real model of \<^verbatim>\<open>handleSphereCollision\<close> is therefore right there as well.
\<close>

lemma handleSphereCollision_coincident:
  "position s1 = position s2 \<Longrightarrow> handleSphereCollision s1 s2 = (s1, s2)"
  by (simp add: handleSphereCollision_def collision_defs)

text \<open>
  Claim C7. For two spheres with the same centre the distance is zero, the test of line 69
  succeeds (zero is less than \<^verbatim>\<open>2 * SPHERE_RADIUS\<close>), so line 74 is reached with a zero
  divisor: no test guards the division. The quotient \<^verbatim>\<open>1.0 / distance\<close> is \<open>+\<infinity>\<close> and both
  components of the normal are NaN.
\<close>

theorem coincident_normal_not_finite:
  "position s1 = position s2 \<Longrightarrow>
   distance s1 s2 = 0 \<and> distance s1 s2 < totalRadius
   \<and> one_over (distance s1 s2) = PlusInfinity
   \<and> normal_ieee s1 s2 = Some (NaN, NaN)"
  by (simp add: normal_ieee_def one_over_def times_ieee_def collision_defs)

theorem coincident_normal_not_finite_witness:
  "position (sphereAt 100 100 0 0) = position (sphereAt 100 100 0 3)
   \<and> distance (sphereAt 100 100 0 0) (sphereAt 100 100 0 3) = 0
   \<and> distance (sphereAt 100 100 0 0) (sphereAt 100 100 0 3) < totalRadius
   \<and> one_over (distance (sphereAt 100 100 0 0) (sphereAt 100 100 0 3)) = PlusInfinity
   \<and> normal_ieee (sphereAt 100 100 0 0) (sphereAt 100 100 0 3) = Some (NaN, NaN)"
proof -
  have h: "position (sphereAt 100 100 0 0) = position (sphereAt 100 100 0 3)"
    by (simp add: sphereAt_def)
  show ?thesis
    using coincident_normal_not_finite [OF h] h by blast
qed

section \<open>Ticks in which no collision response takes place\<close>

lemmas move_defs =
  moveSphere_def resolveBoundaries_def resolveSides_def resolveBottom_def integrate_def
  Vector2_plus_def GRAVITY_def BOUNCE_FACTOR_def SPHERE_RADIUS_def SCREEN_WIDTH_def
  SCREEN_HEIGHT_def

lemmas hsc_defs =
  handleSphereCollision_def collision_defs impulse_def moveDistance_def penetration_def

lemmas tick_defs = tick_def updateSphere_def collideWithOthers_def collidePair_def

lemmas quietTick_defs = quietTick_def clearOf_def noResponse_def

lemma upt2: "[0..<2] = [0, 1]"
  by (simp add: upt_rec)

lemma sqrt_less_40: "sqrt a < 40 \<longleftrightarrow> a < 1600"
proof -
  have "sqrt 1600 = 40" by simp
  then show ?thesis using real_sqrt_less_iff [of a 1600] by simp
qed

lemma distance_commute: "distance s t = distance t s"
  by (simp add: distance_def relativePosition_def Vector2_minus_def power2_commute [of "x (position s)"]
     power2_commute [of "y (position s)"] flip: power2_eq_square)

lemma quotient_swap: "(a - b) / d = - ((b - a) / (d::real))"
  by (metis minus_diff_eq minus_divide_left)

lemma relativeSpeed_commute: "relativeSpeed s t = relativeSpeed t s"
proof -
  have "x (normal s t) = - x (normal t s)" "y (normal s t) = - y (normal t s)"
    by (simp_all add: normal_def distance_commute [of s t] relativePosition_def
        Vector2_minus_def Vector2_scale_def quotient_swap [of "x (position t)"]
        quotient_swap [of "y (position t)"])
  moreover have "x (relativeVelocity s t) = - x (relativeVelocity t s)"
    "y (relativeVelocity s t) = - y (relativeVelocity t s)"
    by (simp_all add: relativeVelocity_def Vector2_minus_def)
  ultimately show ?thesis
    by (simp add: relativeSpeed_def)
qed

lemma noResponse_commute: "noResponse s t = noResponse t s"
  by (simp add: noResponse_def distance_commute [of s t] relativeSpeed_commute [of s t])

lemma handleSphereCollision_noResponse:
  "noResponse s t \<Longrightarrow> handleSphereCollision s t = (s, t)"
  by (auto simp add: noResponse_def handleSphereCollision_def)

lemma collidePair_noResponse:
  "(i \<noteq> j \<Longrightarrow> noResponse (st ! i) (st ! j)) \<Longrightarrow> collidePair i st j = st"
  by (simp add: collidePair_def handleSphereCollision_noResponse)

lemma foldl_collidePair_noResponse:
  "(\<And>j. j \<in> set js \<Longrightarrow> j \<noteq> i \<Longrightarrow> noResponse (st ! i) (st ! j)) \<Longrightarrow> foldl (collidePair i) st js = st"
  by (induction js) (simp_all add: collidePair_noResponse)

lemma collideWithOthers_noResponse:
  "(\<And>j. j < length st \<Longrightarrow> j \<noteq> i \<Longrightarrow> noResponse (st ! i) (st ! j)) \<Longrightarrow> collideWithOthers i st = st"
  unfolding collideWithOthers_def by (rule foldl_collidePair_noResponse) simp

lemma quietTick_nth:
  "quietTick ss \<Longrightarrow> i < j \<Longrightarrow> j < length ss \<Longrightarrow> clearOf (ss ! i) (ss ! j)"
  by (simp add: quietTick_def sorted_wrt_iff_nth_less)

lemma length_movedUpTo: "length (movedUpTo k ss) = length ss"
  by (simp add: movedUpTo_def)

lemma nth_movedUpTo:
  "j < length ss \<Longrightarrow> movedUpTo k ss ! j = (if j < k then moveSphere (ss ! j) else ss ! j)"
  by (auto simp add: movedUpTo_def nth_append min_def)

lemma movedUpTo_Suc:
  assumes "k < length ss"
  shows "(movedUpTo k ss)[k := moveSphere (movedUpTo k ss ! k)] = movedUpTo (Suc k) ss"
  using assms
  by (intro nth_equalityI) (auto simp add: length_movedUpTo nth_movedUpTo nth_list_update)

lemma updateSphere_quiet:
  assumes sep: "quietTick ss" and k: "k < length ss"
  shows "updateSphere (movedUpTo k ss) k = movedUpTo (Suc k) ss"
proof -
  have "collideWithOthers k (movedUpTo (Suc k) ss) = movedUpTo (Suc k) ss"
  proof (rule collideWithOthers_noResponse)
    fix j assume j: "j < length (movedUpTo (Suc k) ss)" and jk: "j \<noteq> k"
    then have jl: "j < length ss" by (simp add: length_movedUpTo)
    show "noResponse (movedUpTo (Suc k) ss ! k) (movedUpTo (Suc k) ss ! j)"
    proof (cases "j < k")
      case True
      then have "clearOf (ss ! j) (ss ! k)" using sep k by (simp add: quietTick_nth)
      then have "noResponse (moveSphere (ss ! k)) (moveSphere (ss ! j))"
        by (simp add: clearOf_def noResponse_commute)
      then show ?thesis using True k jl by (simp add: nth_movedUpTo)
    next
      case False
      then have kj: "k < j" using jk by simp
      then have "clearOf (ss ! k) (ss ! j)" using sep jl by (simp add: quietTick_nth)
      then have "noResponse (moveSphere (ss ! k)) (ss ! j)" by (simp add: clearOf_def)
      then show ?thesis using kj k jl by (simp add: nth_movedUpTo)
    qed
  qed
  then show ?thesis
    by (simp add: updateSphere_def movedUpTo_Suc [OF k])
qed

lemma foldl_updateSphere_quiet:
  "quietTick ss \<Longrightarrow> k \<le> length ss \<Longrightarrow> foldl updateSphere ss [0..<k] = movedUpTo k ss"
proof (induction k)
  case 0
  then show ?case by (simp add: movedUpTo_def)
next
  case (Suc k)
  then show ?case by (simp add: updateSphere_quiet)
qed

lemma tick_quiet: "quietTick ss \<Longrightarrow> tick ss = map moveSphere ss"
  by (simp add: tick_def foldl_updateSphere_quiet movedUpTo_def)

lemma foldl_pairs_noResponse:
  "(\<And>i j. (i, j) \<in> set ps \<Longrightarrow> noResponse (st ! i) (st ! j)) \<Longrightarrow>
   foldl (\<lambda>st (i, j). collidePair i st j) st ps = st"
  by (induction ps) (auto simp add: collidePair_noResponse)

lemma set_unorderedPairs: "(i, j) \<in> set (unorderedPairs n) \<longleftrightarrow> i < j \<and> j < n"
  by (force simp add: unorderedPairs_def)

lemma resolveCollisions_noResponse:
  "(\<And>i j. i < j \<Longrightarrow> j < length st \<Longrightarrow> noResponse (st ! i) (st ! j)) \<Longrightarrow> resolveCollisions st = st"
  unfolding resolveCollisions_def
  by (rule foldl_pairs_noResponse) (simp add: set_unorderedPairs)

lemma stagedTick_quiet:
  assumes "quietTick ss"
  shows "stagedTick ss = map moveSphere ss"
proof -
  have eq: "map resolveBoundaries (map integrate ss) = map moveSphere ss"
    by (simp add: moveSphere_def)
  have "resolveCollisions (map moveSphere ss) = map moveSphere ss"
  proof (rule resolveCollisions_noResponse)
    fix i j assume "i < j" and "j < length (map moveSphere ss)"
    then have "clearOf (ss ! i) (ss ! j)" using assms by (simp add: quietTick_nth)
    then show "noResponse (map moveSphere ss ! i) (map moveSphere ss ! j)"
      using \<open>i < j\<close> \<open>j < length (map moveSphere ss)\<close> by (simp add: clearOf_def)
  qed
  then show ?thesis unfolding stagedTick_def eq .
qed

lemma length_collidePair: "length (collidePair i st j) = length st"
  by (simp add: collidePair_def split: prod.splits)

lemma length_foldl_collidePair: "length (foldl (collidePair i) st js) = length st"
  by (induction js arbitrary: st) (simp_all add: length_collidePair)

lemma length_updateSphere: "length (updateSphere st i) = length st"
  by (simp add: updateSphere_def collideWithOthers_def length_foldl_collidePair)

lemma length_foldl_updateSphere: "length (foldl updateSphere st js) = length st"
  by (induction js arbitrary: st) (simp_all add: length_updateSphere)

lemma length_tick: "length (tick ss) = length ss"
  by (simp add: tick_def length_foldl_updateSphere)

lemma length_ticks: "length (ticks n ss) = length ss"
  by (induction n) (simp_all add: ticks_def length_tick)

lemma ticks_Suc: "ticks (Suc n) ss = tick (ticks n ss)"
  by (simp add: ticks_def)

lemma moveSphere_x_bounds:
  "real_of_int SPHERE_RADIUS \<le> x (position (moveSphere s))
   \<and> x (position (moveSphere s)) \<le> real_of_int (SCREEN_WIDTH - SPHERE_RADIUS)"
  by (simp add: move_defs Let_def)

lemma moveSphere_y_upper:
  "y (position (moveSphere s)) \<le> real_of_int (SCREEN_HEIGHT - SPHERE_RADIUS)"
  by (simp add: move_defs Let_def)

lemma moveSphere_y_lower:
  "real_of_int SPHERE_RADIUS \<le> y (position (integrate s)) \<Longrightarrow>
   real_of_int SPHERE_RADIUS \<le> y (position (moveSphere s))"
  by (simp add: move_defs Let_def)

lemma ticks_quiet:
  "(\<And>k. k < n \<Longrightarrow> quietTick (ticks k ss)) \<Longrightarrow> ticks n ss = map (moveSphere ^^ n) ss"
proof (induction n)
  case 0
  then show ?case by (simp add: ticks_def)
next
  case (Suc n)
  then have "ticks n ss = map (moveSphere ^^ n) ss" by simp
  moreover have "quietTick (ticks n ss)" using Suc.prems by simp
  ultimately show ?case by (simp add: ticks_Suc tick_quiet)
qed

subsection \<open>The spheres of the examples\<close>

lemma quietTick_example: "quietTick [sphereAt 100 100 0 0, sphereAt 300 455 3 10]"
  by (simp add: quietTick_defs move_defs collision_defs sphereAt_def Let_def sqrt_less_40)

lemma quietTick_example_moved:
  "quietTick (map moveSphere [sphereAt 100 100 0 0, sphereAt 300 455 3 10])"
  by (simp add: quietTick_defs move_defs collision_defs sphereAt_def Let_def sqrt_less_40)

text \<open>Two spheres that overlap and move apart: the list is quiet.\<close>

lemma quietTick_overlapping: "quietTick [sphereAt 100 100 0 0, sphereAt 100 130 0 5]"
  by (simp add: quietTick_defs move_defs collision_defs sphereAt_def Let_def sqrt_less_40
      real_sqrt_divide)

section \<open>The staged procedure and the loop\<close>

text \<open>
  Claim C2, as stated: the three-pass procedure gives the same spheres as the loop. It
  does not. Two spheres are created one above the other, the lower one resting on the
  floor. The loop moves the first sphere and collides it at once with the second, which
  has not moved yet; the staged procedure moves both before any collision.
\<close>

theorem stagedTick_differs_counterexample:
  "stagedTick [sphereAt 100 430 0 0, sphereAt 100 460 0 0]
     \<noteq> tick [sphereAt 100 430 0 0, sphereAt 100 460 0 0]"
  by (simp add: stagedTick_def resolveCollisions_def unorderedPairs_def tick_defs upt2
      move_defs sphereAt_def Let_def hsc_defs real_sqrt_divide)

text \<open>
  Claim C2, amended: the two agree on every list that is quiet for the tick, that is,
  when for each sphere \<open>i\<close> before a sphere \<open>j\<close> in the list, sphere \<open>i\<close> after its move
  and sphere \<open>j\<close>, taken before and after the move of \<open>j\<close>, do not overlap or do not
  approach each other. Both then move every sphere and change nothing else.
\<close>

theorem stagedTick_eq_tick:
  "quietTick ss \<Longrightarrow> stagedTick ss = tick ss"
  by (simp add: stagedTick_quiet tick_quiet)

theorem stagedTick_eq_tick_witness:
  "quietTick [sphereAt 100 100 0 0, sphereAt 100 130 0 5]
   \<and> stagedTick [sphereAt 100 100 0 0, sphereAt 100 130 0 5]
       = tick [sphereAt 100 100 0 0, sphereAt 100 130 0 5]"
  using stagedTick_eq_tick [OF quietTick_overlapping] quietTick_overlapping by blast

section \<open>Containment in the window\<close>

text \<open>
  Claim C1, as stated: after every tick every sphere has
  \<^verbatim>\<open>SPHERE_RADIUS <= y\<close>. A sphere created by a click five pixels below the top of the
  window is, after one tick, at \<open>y = 5.2\<close>: the loop has no test for the top edge.
\<close>

theorem top_edge_counterexample:
  "\<not> real_of_int SPHERE_RADIUS \<le> y (position (tick [sphereAt 100 5 0 0] ! 0))"
  by (simp add: tick_defs move_defs sphereAt_def Let_def)

text \<open>
  Claim C1, amended: at the end of a tick for which the list is quiet, every sphere has
  \<^verbatim>\<open>SPHERE_RADIUS <= x <= SCREEN_WIDTH - SPHERE_RADIUS\<close> and
  \<^verbatim>\<open>y <= SCREEN_HEIGHT - SPHERE_RADIUS\<close>; the bound \<^verbatim>\<open>SPHERE_RADIUS <= y\<close> holds for a
  sphere whose position after lines 149 to 152 of that tick satisfies it.
\<close>

theorem tick_contained:
  assumes "quietTick ss" and "i < length ss"
  shows "real_of_int SPHERE_RADIUS \<le> x (position (tick ss ! i))
       \<and> x (position (tick ss ! i)) \<le> real_of_int (SCREEN_WIDTH - SPHERE_RADIUS)
       \<and> y (position (tick ss ! i)) \<le> real_of_int (SCREEN_HEIGHT - SPHERE_RADIUS)
       \<and> (real_of_int SPHERE_RADIUS \<le> y (position (integrate (ss ! i)))
            \<longrightarrow> real_of_int SPHERE_RADIUS \<le> y (position (tick ss ! i)))"
  using assms moveSphere_x_bounds [of "ss ! i"] moveSphere_y_upper [of "ss ! i"]
    moveSphere_y_lower [of "ss ! i"]
  by (simp add: tick_quiet)

theorem tick_contained_witness:
  "quietTick [sphereAt 100 100 0 0, sphereAt 300 455 3 10]
   \<and> 1 < length [sphereAt 100 100 0 0, sphereAt 300 455 3 10]
   \<and> real_of_int SPHERE_RADIUS
        \<le> x (position (tick [sphereAt 100 100 0 0, sphereAt 300 455 3 10] ! 1))
   \<and> x (position (tick [sphereAt 100 100 0 0, sphereAt 300 455 3 10] ! 1))
        \<le> real_of_int (SCREEN_WIDTH - SPHERE_RADIUS)
   \<and> y (position (tick [sphereAt 100 100 0 0, sphereAt 300 455 3 10] ! 1))
        \<le> real_of_int (SCREEN_HEIGHT - SPHERE_RADIUS)
   \<and> real_of_int SPHERE_RADIUS
        \<le> y (position (integrate ([sphereAt 100 100 0 0, sphereAt 300 455 3 10] ! 1)))
   \<and> real_of_int SPHERE_RADIUS
        \<le> y (position (tick [sphereAt 100 100 0 0, sphereAt 300 455 3 10] ! 1))"
proof -
  have h2: "1 < length [sphereAt 100 100 0 0, sphereAt 300 455 3 10]"
    by simp
  have h3: "real_of_int SPHERE_RADIUS
      \<le> y (position (integrate ([sphereAt 100 100 0 0, sphereAt 300 455 3 10] ! 1)))"
    by (simp add: move_defs sphereAt_def Let_def)
  show ?thesis
    using tick_contained [OF quietTick_example h2] quietTick_example h2 h3 by blast
qed

text \<open>
  Claim C6, as stated: after every tick every sphere has
  \<^verbatim>\<open>y <= SCREEN_HEIGHT - SPHERE_RADIUS\<close>. Two spheres are created one above the other, the
  lower one resting on the floor. In the tick the upper sphere pushes the lower one below
  the floor; the lower one is then put back on the floor by its own boundary test, and
  its collision with the upper sphere, which comes after that test, pushes it below the
  floor again. It ends the tick at \<open>y = 462.55\<close>.
\<close>

theorem pushed_below_floor_counterexample:
  "\<not> y (position (tick [sphereAt 100 430 0 0, sphereAt 100 460 0 0] ! 1))
       \<le> real_of_int (SCREEN_HEIGHT - SPHERE_RADIUS)"
  by (simp add: tick_defs upt2 move_defs sphereAt_def Let_def hsc_defs real_sqrt_divide)

text \<open>
  Claim C6, amended: after any number of ticks, whatever happened in them, the end of one
  more tick for which the list is quiet finds every sphere with
  \<^verbatim>\<open>SPHERE_RADIUS <= x <= SCREEN_WIDTH - SPHERE_RADIUS\<close> and
  \<^verbatim>\<open>y <= SCREEN_HEIGHT - SPHERE_RADIUS\<close>. Nothing bounds \<open>y\<close> from below.
\<close>

theorem ticks_contained:
  assumes "quietTick (ticks n ss)" and "i < length ss"
  shows "real_of_int SPHERE_RADIUS \<le> x (position (ticks (Suc n) ss ! i))
       \<and> x (position (ticks (Suc n) ss ! i)) \<le> real_of_int (SCREEN_WIDTH - SPHERE_RADIUS)
       \<and> y (position (ticks (Suc n) ss ! i)) \<le> real_of_int (SCREEN_HEIGHT - SPHERE_RADIUS)"
  using assms moveSphere_x_bounds [of "ticks n ss ! i"] moveSphere_y_upper [of "ticks n ss ! i"]
  by (simp add: ticks_Suc tick_quiet length_ticks)

theorem ticks_contained_witness:
  "quietTick (ticks 1 [sphereAt 100 100 0 0, sphereAt 300 455 3 10])
   \<and> 1 < length [sphereAt 100 100 0 0, sphereAt 300 455 3 10]
   \<and> real_of_int SPHERE_RADIUS
        \<le> x (position (ticks (Suc 1) [sphereAt 100 100 0 0, sphereAt 300 455 3 10] ! 1))
   \<and> x (position (ticks (Suc 1) [sphereAt 100 100 0 0, sphereAt 300 455 3 10] ! 1))
        \<le> real_of_int (SCREEN_WIDTH - SPHERE_RADIUS)
   \<and> y (position (ticks (Suc 1) [sphereAt 100 100 0 0, sphereAt 300 455 3 10] ! 1))
        \<le> real_of_int (SCREEN_HEIGHT - SPHERE_RADIUS)"
proof -
  have "ticks 1 [sphereAt 100 100 0 0, sphereAt 300 455 3 10]
          = map moveSphere [sphereAt 100 100 0 0, sphereAt 300 455 3 10]"
    using tick_quiet [OF quietTick_example] by (simp add: ticks_def)
  then have h1: "quietTick (ticks 1 [sphereAt 100 100 0 0, sphereAt 300 455 3 10])"
    using quietTick_example_moved by simp
  have h2: "1 < length [sphereAt 100 100 0 0, sphereAt 300 455 3 10]"
    by simp
  show ?thesis
    using ticks_contained [OF h1 h2] h1 h2 by blast
qed

section \<open>The bounce on the floor\<close>

lemma moveSphere_floor:
  assumes "real_of_int SCREEN_HEIGHT \<le> y (position s) + (y (velocity s) + GRAVITY) + real_of_int SPHERE_RADIUS"
  shows "y (velocity (moveSphere s)) = - (y (velocity s) + GRAVITY) * BOUNCE_FACTOR"
    and "y (position (moveSphere s)) = real_of_int (SCREEN_HEIGHT - SPHERE_RADIUS)"
  using assms by (simp_all add: move_defs Let_def)

text \<open>
  Claim C4, as stated: a sphere that starts a tick with vertical velocity \<open>v > 0\<close> and
  crosses the floor in it ends the tick with vertical velocity \<open>- v\<close> times the restitution.
  A lone sphere five pixels above its resting height with \<open>v = 10\<close> ends the tick with
  \<open>- 8.16\<close>, not \<open>- 8\<close>: line 149 adds the gravity to the velocity before line 160 reverses
  it.
\<close>

theorem floor_bounce_counterexample:
  "y (velocity (sphereAt 100 455 0 10)) = 10
   \<and> real_of_int SCREEN_HEIGHT
        \<le> y (position (integrate (sphereAt 100 455 0 10))) + real_of_int SPHERE_RADIUS
   \<and> y (velocity (tick [sphereAt 100 455 0 10] ! 0))
        \<noteq> - 10 * bounceFactor (sphereAt 100 455 0 10)
   \<and> y (velocity (tick [sphereAt 100 455 0 10] ! 0)) \<noteq> - 10 * BOUNCE_FACTOR"
  by (simp add: tick_defs move_defs sphereAt_def Let_def)

text \<open>
  Claim C4, amended: a sphere that starts with vertical velocity \<open>v > 0\<close> a tick for which
  the list is quiet, and whose position after lines 149 to 152 reaches the floor, ends
  the tick with vertical velocity \<^verbatim>\<open>-(v + GRAVITY) * BOUNCE_FACTOR\<close> and with
  \<^verbatim>\<open>y == SCREEN_HEIGHT - SPHERE_RADIUS\<close> exactly.
\<close>

theorem floor_bounce:
  assumes "quietTick ss" and "i < length ss"
    and "y (velocity (ss ! i)) = v" and "0 < v"
    and "real_of_int SCREEN_HEIGHT
           \<le> y (position (ss ! i)) + (v + GRAVITY) + real_of_int SPHERE_RADIUS"
  shows "y (velocity (tick ss ! i)) = - (v + GRAVITY) * BOUNCE_FACTOR
       \<and> y (position (tick ss ! i)) = real_of_int (SCREEN_HEIGHT - SPHERE_RADIUS)"
  using assms moveSphere_floor [of "ss ! i"]
  by (simp add: tick_quiet)

theorem floor_bounce_witness:
  "quietTick [sphereAt 100 100 0 0, sphereAt 300 455 3 10]
   \<and> 1 < length [sphereAt 100 100 0 0, sphereAt 300 455 3 10]
   \<and> y (velocity ([sphereAt 100 100 0 0, sphereAt 300 455 3 10] ! 1)) = 10
   \<and> (0::real) < 10
   \<and> real_of_int SCREEN_HEIGHT
        \<le> y (position ([sphereAt 100 100 0 0, sphereAt 300 455 3 10] ! 1)) + (10 + GRAVITY)
            + real_of_int SPHERE_RADIUS
   \<and> y (velocity (tick [sphereAt 100 100 0 0, sphereAt 300 455 3 10] ! 1))
        = - (10 + GRAVITY) * BOUNCE_FACTOR
   \<and> y (position (tick [sphereAt 100 100 0 0, sphereAt 300 455 3 10] ! 1))
        = real_of_int (SCREEN_HEIGHT - SPHERE_RADIUS)"
proof -
  have h2: "1 < length [sphereAt 100 100 0 0, sphereAt 300 455 3 10]"
    by simp
  have h3: "y (velocity ([sphereAt 100 100 0 0, sphereAt 300 455 3 10] ! 1)) = 10"
    by (simp add: sphereAt_def)
  have h4: "(0::real) < 10"
    by simp
  have h5: "real_of_int SCREEN_HEIGHT
      \<le> y (position ([sphereAt 100 100 0 0, sphereAt 300 455 3 10] ! 1)) + (10 + GRAVITY)
          + real_of_int SPHERE_RADIUS"
    by (simp add: move_defs sphereAt_def)
  show ?thesis
    using floor_bounce [OF quietTick_example h2 h3 h4 h5] quietTick_example h2 h3 h4 h5
    by blast
qed

section \<open>Gravity alone, in exact arithmetic\<close>

lemma moveSphere_free:
  assumes "real_of_int SPHERE_RADIUS < x (position s) + x (velocity s)"
    and "x (position s) + x (velocity s) + real_of_int SPHERE_RADIUS < real_of_int SCREEN_WIDTH"
    and "y (position s) + (y (velocity s) + GRAVITY) + real_of_int SPHERE_RADIUS < real_of_int SCREEN_HEIGHT"
  shows "moveSphere s = integrate s"
  using assms
  by (simp add: moveSphere_def resolveBoundaries_def resolveBottom_def resolveSides_def
      integrate_def Let_def Vector2_plus_def)

lemma sum_upto_Suc: "(\<Sum>j = 1..Suc n. real j) = (\<Sum>j = 1..n. real j) + (real n + 1)"
  by simp

lemma free_fall:
  assumes "velocity s = \<lparr>x = 0, y = 0\<rparr>"
    and "real_of_int SPHERE_RADIUS < x (position s)"
    and "x (position s) + real_of_int SPHERE_RADIUS < real_of_int SCREEN_WIDTH"
    and "\<And>k. 1 \<le> k \<Longrightarrow> k \<le> n \<Longrightarrow>
       y (position s) + GRAVITY * (\<Sum>j = 1..k. real j) + real_of_int SPHERE_RADIUS < real_of_int SCREEN_HEIGHT"
  shows "(moveSphere ^^ n) s =
     s\<lparr>position := \<lparr>x = x (position s), y = y (position s) + GRAVITY * (\<Sum>j = 1..n. real j)\<rparr>,
       velocity := \<lparr>x = 0, y = real n * GRAVITY\<rparr>\<rparr>"
  using assms(4)
proof (induction n)
  case 0
  then show ?case using assms(1) by simp
next
  case (Suc n)
  let ?t = "s\<lparr>position := \<lparr>x = x (position s), y = y (position s) + GRAVITY * (\<Sum>j = 1..n. real j)\<rparr>,
       velocity := \<lparr>x = 0, y = real n * GRAVITY\<rparr>\<rparr>"
  have IH: "(moveSphere ^^ n) s = ?t"
    using Suc by simp
  have "y (position s) + GRAVITY * (\<Sum>j = 1..Suc n. real j) + real_of_int SPHERE_RADIUS < real_of_int SCREEN_HEIGHT"
    using Suc.prems [of "Suc n"] by simp
  then have "y (position s) + GRAVITY * ((\<Sum>j = 1..n. real j) + (real n + 1)) + real_of_int SPHERE_RADIUS
     < real_of_int SCREEN_HEIGHT"
    by (simp only: sum_upto_Suc)
  then have *: "y (position ?t) + (y (velocity ?t) + GRAVITY) + real_of_int SPHERE_RADIUS
     < real_of_int SCREEN_HEIGHT"
    by (simp add: distrib_left mult.commute)
  have "moveSphere ?t = integrate ?t"
    using * assms(2,3) by (intro moveSphere_free) simp_all
  also have "\<dots> = s\<lparr>position := \<lparr>x = x (position s), y = y (position s) + GRAVITY * (\<Sum>j = 1..Suc n. real j)\<rparr>,
       velocity := \<lparr>x = 0, y = real (Suc n) * GRAVITY\<rparr>\<rparr>"
    unfolding sum_upto_Suc
    by (simp add: integrate_def Let_def Vector2_plus_def distrib_left distrib_right mult.commute)
  finally show ?case by (simp only: funpow.simps o_apply IH)
qed

text \<open>
  Over the reals: a sphere starts at rest; during \<open>n\<close> ticks the list is quiet at the
  start of each tick, the sphere is strictly between the left and right edges, and the
  heights \<open>y0 + g * (1 + ... + k)\<close> for \<open>k\<close> from 1 to \<open>n\<close> stay strictly above the floor
  test. Then after the \<open>n\<close> ticks its vertical velocity is \<open>n * g\<close> and its height is
  \<open>y0 + g * (1 + 2 + ... + n)\<close>: the velocity is updated before the position in each tick.
  This is a statement about the recurrence of lines 149 to 152, not about a run of the
  program. The run adds the binary64 number nearest to 0.2 and rounds every sum, so its
  velocity and height are the rounded running sums; they differ from the closed forms in
  the last places (the velocity after six ticks is not six times 0.2). Equality with the
  closed forms is a statement about rounding, which this embedding does not express.
\<close>

lemma gravity_only_exact:
  assumes "i < length ss"
    and "velocity (ss ! i) = \<lparr>x = 0, y = 0\<rparr>"
    and "\<forall>k<n. quietTick (ticks k ss)"
    and "real_of_int SPHERE_RADIUS < x (position (ss ! i))"
    and "x (position (ss ! i)) + real_of_int SPHERE_RADIUS < real_of_int SCREEN_WIDTH"
    and "\<forall>k\<in>{1..n}. y (position (ss ! i)) + GRAVITY * (\<Sum>j = 1..k. real j)
             + real_of_int SPHERE_RADIUS < real_of_int SCREEN_HEIGHT"
  shows "y (velocity (ticks n ss ! i)) = real n * GRAVITY
       \<and> y (position (ticks n ss ! i))
           = y (position (ss ! i)) + GRAVITY * (\<Sum>j = 1..n. real j)"
proof -
  have "ticks n ss = map (moveSphere ^^ n) ss"
    using assms(3) by (simp add: ticks_quiet)
  then have "ticks n ss ! i = (moveSphere ^^ n) (ss ! i)"
    using assms(1) by simp
  moreover have "(moveSphere ^^ n) (ss ! i) =
     (ss ! i)\<lparr>position := \<lparr>x = x (position (ss ! i)),
                            y = y (position (ss ! i)) + GRAVITY * (\<Sum>j = 1..n. real j)\<rparr>,
              velocity := \<lparr>x = 0, y = real n * GRAVITY\<rparr>\<rparr>"
    using assms(2,4,5,6) by (intro free_fall) simp_all
  ultimately show ?thesis by simp
qed

end
